theory Spec2Isabelle
  imports Complex_Main
begin

section \<open>conda\_build/config.py: build settings and derived paths\<close>

subsection \<open>Python values and exceptions\<close>

text \<open>
  The keyword arguments of \<open>Config.set_keys\<close> are untyped: a version override may be a
  string or a list, a flag may be a boolean, a token may be \<open>None\<close>. The values that
  reach the code are modelled by one datatype.
\<close>

datatype pyval =
    PNone
  | PBool bool
  | PInt int
  | PStr string
  | PList "pyval list"
  | PTuple "pyval list"

text \<open>The exceptions that the modelled statements can raise.\<close>

datatype error = ValueError | AttributeError | TypeError

text \<open>Truth value testing (\<open>if x\<close>, \<open>not x\<close>, \<open>x or y\<close>).\<close>

fun truthy :: "pyval \<Rightarrow> bool" where
  "truthy PNone = False"
| "truthy (PBool b) = b"
| "truthy (PInt i) = (i \<noteq> 0)"
| "truthy (PStr s) = (s \<noteq> [])"
| "truthy (PList xs) = (xs \<noteq> [])"
| "truthy (PTuple xs) = (xs \<noteq> [])"

subsection \<open>Strings\<close>

text \<open>\<open>s < t\<close> on strings: lexicographic on the character codes.\<close>

fun str_less :: "string \<Rightarrow> string \<Rightarrow> bool" where
  "str_less [] [] = False"
| "str_less [] (y # ys) = True"
| "str_less (x # xs) [] = False"
| "str_less (x # xs) (y # ys) =
     (if (of_char x :: nat) < of_char y then True
      else if (of_char y :: nat) < of_char x then False
      else str_less xs ys)"

text \<open>\<open>max(a, b)\<close> on strings: the first argument unless the second is greater.\<close>

definition str_max :: "string \<Rightarrow> string \<Rightarrow> string" where
  "str_max a b = (if str_less a b then b else a)"

text \<open>\<open>s[:n]\<close>: a negative bound counts from the end, and never raises.\<close>

definition slice_to :: "string \<Rightarrow> int \<Rightarrow> string" where
  "slice_to s n = (if 0 \<le> n then take (nat n) s else take (nat (int (length s) + n)) s)"

text \<open>\<open>n * s\<close>: the empty string for \<open>n \<le> 0\<close>.\<close>

definition str_times :: "int \<Rightarrow> string \<Rightarrow> string" where
  "str_times n s = concat (replicate (nat n) s)"

text \<open>
  \<open>math.ceil(a / b)\<close> under \<open>from __future__ import division\<close>, for a positive
  divisor: the least integer not below the quotient (the float quotient of a string length
  by ten is exact enough for its ceiling to be that integer).
\<close>

definition ceil_div :: "int \<Rightarrow> int \<Rightarrow> int" where
  "ceil_div a b = - ((- a) div b)"

subsection \<open>The fixed-length build prefix (Config.build\_prefix)\<close>

text \<open>
  Lines 172-176 of the property, as a function of the stub
  \<open>join(self.build_folder, '_build_env')\<close> and of \<open>self.prefix_length\<close>.
\<close>

definition build_prefix_of :: "string \<Rightarrow> int \<Rightarrow> string" where
  "build_prefix_of stub prefix_length =
     (let placeholder_length = prefix_length - int (length stub);
          placeholder = ''_placehold'';
          repeats = ceil_div placeholder_length (int (length placeholder)) + 1;
          placeholder' = slice_to (stub @ str_times repeats placeholder) prefix_length
      in str_max stub placeholder')"

subsection \<open>String methods used by the settings merge\<close>

text \<open>\<open>s.upper()\<close> on ASCII text.\<close>

definition upper_char :: "char \<Rightarrow> char" where
  "upper_char c =
     (let n = (of_char c :: nat) in if 97 \<le> n \<and> n \<le> 122 then char_of (n - 32) else c)"

definition upper :: "string \<Rightarrow> string" where
  "upper s = map upper_char s"

text \<open>\<open>s.replace('.', '')\<close>.\<close>

definition replace_dot :: "string \<Rightarrow> string" where
  "replace_dot s = filter (\<lambda>c. c \<noteq> CHR ''.'') s"

definition is_digit :: "char \<Rightarrow> bool" where
  "is_digit c = (c \<in> set ''0123456789'')"

text \<open>
  The characters that Python 3 counts as whitespace, among the code points below 256: the
  ASCII ones, the four separators \<open>0x1C\<close> to \<open>0x1F\<close>, next line \<open>0x85\<close> and the
  no-break space \<open>0xA0\<close>.
\<close>

definition is_space :: "char \<Rightarrow> bool" where
  "is_space c =
     (c \<in> set [CHR 0x09, CHR 0x0A, CHR 0x0B, CHR 0x0C, CHR 0x0D, CHR 0x1C, CHR 0x1D,
                CHR 0x1E, CHR 0x1F, CHR '' '', CHR 0x85, CHR 0xA0])"

definition digit_value :: "char \<Rightarrow> nat" where
  "digit_value c = of_char c - 48"

text \<open>The number written by a string of decimal digits, most significant first.\<close>

definition digits_value :: "string \<Rightarrow> nat" where
  "digits_value ds = foldl (\<lambda>a c. 10 * a + digit_value c) 0 ds"

definition strip :: "string \<Rightarrow> string" where
  "strip s = rev (dropWhile is_space (rev (dropWhile is_space s)))"

text \<open>
  The digits of an integer literal: one or more decimal digits, with single underscores
  allowed between two digits (Python 3.6 and later).
\<close>

fun digit_seq :: "string \<Rightarrow> bool" where
  "digit_seq [] = False"
| "digit_seq [c] = is_digit c"
| "digit_seq (c # d # r) =
     (is_digit c \<and> (if d = CHR ''_'' then digit_seq r else digit_seq (d # r)))"

text \<open>
  \<open>int(s)\<close> for a string, as Python 3 defines it in base ten, on text whose characters
  are code points below 256: surrounding whitespace is dropped, then come an optional sign
  and the digits. \<open>None\<close> stands for the \<open>ValueError\<close> that \<open>int\<close> raises on anything
  else.
\<close>

definition py_int :: "string \<Rightarrow> int option" where
  "py_int s =
     (case strip s of
        [] \<Rightarrow> None
      | c # r \<Rightarrow>
          (let ds = (if c = CHR ''-'' \<or> c = CHR ''+'' then r else c # r);
               n = int (digits_value (filter is_digit ds))
           in if digit_seq ds then Some (if c = CHR ''-'' then - n else n) else None))"

text \<open>\<open>"%s" % n\<close> for a natural number.\<close>

fun str_of_nat :: "nat \<Rightarrow> string" where
  "str_of_nat n =
     (if n < 10 then [char_of (48 + n)]
      else str_of_nat (n div 10) @ [char_of (48 + n mod 10)])"

declare str_of_nat.simps [simp del]

text \<open>
  \<open>int(v.replace('.', ''))\<close> on a value: only strings have \<open>replace\<close>, and \<open>int\<close>
  rejects what is not an integer literal.
\<close>

definition int_replace :: "pyval \<Rightarrow> error + int" where
  "int_replace v =
     (case v of
        PStr s \<Rightarrow> (case py_int (replace_dot s) of None \<Rightarrow> Inl ValueError | Some n \<Rightarrow> Inr n)
      | _ \<Rightarrow> Inl AttributeError)"

subsection \<open>Paths\<close>

text \<open>
  \<open>os.path.join(a, b)\<close> of the standard library on a POSIX platform: an absolute second
  component replaces the first, otherwise the two are joined by exactly one separator.
\<close>

definition path_join :: "string \<Rightarrow> string \<Rightarrow> string" where
  "path_join a b =
     (if b \<noteq> [] \<and> hd b = CHR ''/'' then b
      else if a = [] \<or> last a = CHR ''/'' then a @ b
      else a @ ''/'' @ b)"

text \<open>\<open>join\<close> applied to values: anything but two strings is rejected.\<close>

definition join :: "pyval \<Rightarrow> pyval \<Rightarrow> error + string" where
  "join a b =
     (case (a, b) of
        (PStr x, PStr y) \<Rightarrow> Inr (path_join x y)
      | _ \<Rightarrow> Inl TypeError)"

subsection \<open>What the module reads from outside\<close>

text \<open>
  The process environment (\<open>os.getenv\<close>), the interpreter version
  (\<open>sys.version_info\<close>), the values taken from \<open>conda.config\<close> (\<open>cc.binstar_upload\<close>,
  the \<open>root-dir\<close> entry of the \<open>conda-build\<close> section of \<open>cc.rc\<close>: a path when
  configured, \<open>cc.root_writable\<close>, \<open>cc.root_dir\<close>, \<open>cc.subdir\<close>) and the two
  \<open>os.path\<close> functions that consult the home directory and the working directory.
\<close>

record os_env =
  environ :: "string \<rightharpoonup> string"
  version_major :: nat
  version_minor :: nat
  binstar_upload :: pyval
  rc_root_dir :: "string option"
  root_writable :: bool
  root_dir :: string
  subdir :: string
  expanduser :: "string \<Rightarrow> string"
  abspath :: "string \<Rightarrow> string"

text \<open>\<open>os.getenv(var)\<close>: \<open>None\<close> when the variable is not set.\<close>

definition getenv :: "os_env \<Rightarrow> string \<Rightarrow> pyval" where
  "getenv os var = (case environ os var of None \<Rightarrow> PNone | Some s \<Rightarrow> PStr s)"

subsection \<open>The Config object\<close>

text \<open>
  The attributes that \<open>set_keys\<close> assigns by name are fields; \<open>_build_id\<close>,
  \<open>_prefix_length\<close> and \<open>_croot\<close> are written \<open>priv_\<close>. The attributes assigned with
  \<open>setattr\<close> from the settings table live in \<open>attrs\<close>, so that \<open>hasattr\<close> is a
  lookup.
\<close>

record config =
  CONDA_PERL :: pyval
  CONDA_LUA :: pyval
  CONDA_R :: pyval
  CONDA_PY :: int
  CONDA_NPY :: pyval
  priv_build_id :: pyval
  priv_prefix_length :: pyval
  priv_croot :: pyval
  use_long_build_prefix :: pyval
  attrs :: "string \<rightharpoonup> pyval"

text \<open>
  Keyword arguments, in call order. \<open>kwargs.get(k, d)\<close> is \<open>d\<close> for a missing key,
  and \<open>kwargs.get(k)\<close> is \<open>kwargs.get(k, None)\<close>.
\<close>

type_synonym kwargs = "(string \<times> pyval) list"

definition kwargs_get :: "kwargs \<Rightarrow> string \<Rightarrow> pyval \<Rightarrow> pyval" where
  "kwargs_get kwargs k d = (case map_of kwargs k of None \<Rightarrow> d | Some v \<Rightarrow> v)"

text \<open>Lines 28-30.\<close>

definition set_attribute_from_kwargs :: "kwargs \<Rightarrow> string \<Rightarrow> pyval \<Rightarrow> config \<Rightarrow> config" where
  "set_attribute_from_kwargs kwargs attr dflt self =
     (let value = kwargs_get kwargs attr
                    (case attrs self attr of Some v \<Rightarrow> v | None \<Rightarrow> dflt)
      in self\<lparr>attrs := (attrs self)(attr \<mapsto> value)\<rparr>)"

text \<open>Lines 37-39: the environment variable of a language.\<close>

definition env_var :: "string \<Rightarrow> string" where
  "env_var lang = ''CONDA_'' @ upper (if lang = ''python'' then ''py'' else lang)"

text \<open>Lines 33-43: the nested function \<open>env\<close>.\<close>

definition env :: "os_env \<Rightarrow> kwargs \<Rightarrow> string \<Rightarrow> pyval \<Rightarrow> pyval" where
  "env os kwargs lang dflt =
     (let version = kwargs_get kwargs lang PNone
      in if \<not> truthy version then
           (if truthy (getenv os (env_var lang)) then getenv os (env_var lang) else dflt)
         else (case version of PList [v] \<Rightarrow> v | _ \<Rightarrow> version))"

text \<open>Line 48: the default of the python version, \<open>"%s%s" % (major, minor)\<close>.\<close>

definition default_python :: "os_env \<Rightarrow> string" where
  "default_python os = str_of_nat (version_major os) @ str_of_nat (version_minor os)"

text \<open>Lines 51-53.\<close>

definition resolve_npy :: "os_env \<Rightarrow> kwargs \<Rightarrow> error + pyval" where
  "resolve_npy os kwargs =
     (let npy = kwargs_get kwargs ''numpy'' (getenv os ''CONDA_NPY'')
      in if truthy npy then
           (case int_replace npy of
              Inl e \<Rightarrow> Inl e
            | Inr n \<Rightarrow> Inr (if n \<noteq> 0 then PInt n else PNone))
         else Inr npy)"

text \<open>Lines 63-77: the settings table.\<close>

definition settings :: "os_env \<Rightarrow> (string \<times> pyval) list" where
  "settings os =
     [(''activate'', PBool True),
      (''anaconda_upload'', binstar_upload os),
      (''channel_urls'', PTuple []),
      (''dirty'', PBool False),
      (''include_recipe'', PBool True),
      (''keep_old_work'', PBool False),
      (''noarch'', PBool False),
      (''no_download_source'', PBool False),
      (''override_channels'', PBool False),
      (''skip_existing'', PBool False),
      (''token'', PNone),
      (''user'', PNone),
      (''verbose'', PBool False)]"

text \<open>Lines 78-79: the loop over the settings table.\<close>

fun merge_settings :: "kwargs \<Rightarrow> (string \<times> pyval) list \<Rightarrow> config \<Rightarrow> config" where
  "merge_settings kwargs [] self = self"
| "merge_settings kwargs (v # vs) self =
     merge_settings kwargs vs (set_attribute_from_kwargs kwargs (fst v) (snd v) self)"

text \<open>
  Lines 32-79. The assignments run in source order; an exception raised by the conversion
  of the python or numpy version leaves the method before the later ones.
\<close>

definition set_keys :: "os_env \<Rightarrow> kwargs \<Rightarrow> config \<Rightarrow> error + config" where
  "set_keys os kwargs self =
     (let self1 = self\<lparr>CONDA_PERL := env os kwargs ''perl'' (PStr ''5.18.2''),
                       CONDA_LUA := env os kwargs ''lua'' (PStr ''5.2''),
                       CONDA_R := env os kwargs ''r'' (PStr ''3.2.2'')\<rparr>
      in case int_replace (env os kwargs ''python'' (PStr (default_python os))) of
           Inl e \<Rightarrow> Inl e
         | Inr py \<Rightarrow>
             (case resolve_npy os kwargs of
                Inl e \<Rightarrow> Inl e
              | Inr npy \<Rightarrow>
                  (let self2 = self1\<lparr>CONDA_PY := py,
                                     CONDA_NPY := npy,
                                     priv_build_id := kwargs_get kwargs ''build_id'' (PStr []),
                                     priv_prefix_length := kwargs_get kwargs ''prefix_length'' (PInt 80),
                                     priv_croot := kwargs_get kwargs ''croot'' PNone,
                                     use_long_build_prefix :=
                                       kwargs_get kwargs ''use_long_build_prefix'' (PBool False)\<rparr>
                   in Inr (merge_settings kwargs (settings os) self2))))"

text \<open>
  Lines 24-26. A new object has no attribute yet: \<open>attrs\<close> is empty, and \<open>set_keys\<close>
  assigns every field before anything reads it.
\<close>

definition new_object :: config where
  "new_object =
     \<lparr>CONDA_PERL = PNone, CONDA_LUA = PNone, CONDA_R = PNone, CONDA_PY = 0,
      CONDA_NPY = PNone, priv_build_id = PNone, priv_prefix_length = PNone,
      priv_croot = PNone, use_long_build_prefix = PNone, attrs = Map.empty\<rparr>"

definition Config :: "os_env \<Rightarrow> kwargs \<Rightarrow> error + config" where
  "Config os kwargs = set_keys os kwargs new_object"

text \<open>Lines 258-263; \<open>config\<close> is an object or \<open>None\<close>.\<close>

definition get_or_merge_config :: "os_env \<Rightarrow> config option \<Rightarrow> kwargs \<Rightarrow> error + config" where
  "get_or_merge_config os config kwargs =
     (case (case config of None \<Rightarrow> Config os [] | Some c \<Rightarrow> Inr c) of
        Inl e \<Rightarrow> Inl e
      | Inr c \<Rightarrow> if kwargs \<noteq> [] then set_keys os kwargs c else Inr c)"

subsection \<open>croot and the derived paths\<close>

text \<open>Truth value of an optional string: set and not empty.\<close>

definition is_set :: "string option \<Rightarrow> bool" where
  "is_set v = (case v of None \<Rightarrow> False | Some s \<Rightarrow> s \<noteq> [])"

text \<open>
  Lines 81-95, the \<open>croot\<close> property: the value read and the object afterwards (the
  property assigns \<open>_croot\<close> when it resolves it).
\<close>

definition croot :: "os_env \<Rightarrow> config \<Rightarrow> pyval \<times> config" where
  "croot os self =
     (if \<not> truthy (priv_croot self) then
        (let bld_root_env = environ os ''CONDA_BLD_PATH'';
             bld_root_rc = rc_root_dir os;
             c = (if is_set bld_root_env then abspath os (expanduser os (the bld_root_env))
                  else if is_set bld_root_rc then abspath os (expanduser os (the bld_root_rc))
                  else if root_writable os then path_join (root_dir os) ''conda-bld''
                  else abspath os (expanduser os ''~/conda-bld''))
         in (PStr c, self\<lparr>priv_croot := PStr c\<rparr>))
      else (priv_croot self, self))"

text \<open>Lines 97-100, the setter.\<close>

definition croot_setter :: "pyval \<Rightarrow> config \<Rightarrow> config" where
  "croot_setter v self = self\<lparr>priv_croot := v\<rparr>"

text \<open>Lines 150-167.\<close>

definition build_id :: "config \<Rightarrow> pyval" where
  "build_id self = priv_build_id self"

definition build_id_setter :: "pyval \<Rightarrow> config \<Rightarrow> config" where
  "build_id_setter v self = self\<lparr>priv_build_id := v\<rparr>"

definition prefix_length :: "config \<Rightarrow> pyval" where
  "prefix_length self = priv_prefix_length self"

definition prefix_length_setter :: "pyval \<Rightarrow> config \<Rightarrow> config" where
  "prefix_length_setter v self = self\<lparr>priv_prefix_length := v\<rparr>"

text \<open>
  The path properties read \<open>croot\<close>, so each returns its value, or the exception, together
  with the object afterwards. Lines 102-106.
\<close>

definition build_folder :: "os_env \<Rightarrow> config \<Rightarrow> (error + string) \<times> config" where
  "build_folder os self =
     (case croot os self of (c, self') \<Rightarrow> (join c (build_id self'), self'))"

text \<open>\<open>join(self.build_folder, leaf)\<close>: lines 171, 181, 250 and 255.\<close>

definition under_build_folder :: "os_env \<Rightarrow> string \<Rightarrow> config \<Rightarrow> (error + string) \<times> config" where
  "under_build_folder os leaf self =
     (case build_folder os self of
        (Inl e, self') \<Rightarrow> (Inl e, self')
      | (Inr folder, self') \<Rightarrow> (Inr (path_join folder leaf), self'))"

text \<open>Lines 169-176. \<open>bool\<close> is a subclass of \<open>int\<close>.\<close>

definition build_prefix :: "os_env \<Rightarrow> config \<Rightarrow> (error + string) \<times> config" where
  "build_prefix os self =
     (case under_build_folder os ''_build_env'' self of
        (Inl e, self') \<Rightarrow> (Inl e, self')
      | (Inr stub, self') \<Rightarrow>
          (case prefix_length self' of
             PInt n \<Rightarrow> (Inr (build_prefix_of stub n), self')
           | PBool b \<Rightarrow> (Inr (build_prefix_of stub (if b then 1 else 0)), self')
           | _ \<Rightarrow> (Inl TypeError, self')))"

definition test_prefix :: "os_env \<Rightarrow> config \<Rightarrow> (error + string) \<times> config" where
  "test_prefix os self = under_build_folder os ''_test_env'' self"

definition work_dir :: "os_env \<Rightarrow> config \<Rightarrow> (error + string) \<times> config" where
  "work_dir os self = under_build_folder os ''work'' self"

definition test_dir :: "os_env \<Rightarrow> config \<Rightarrow> (error + string) \<times> config" where
  "test_dir os self = under_build_folder os ''test_tmp'' self"

text \<open>Lines 219-225; reading an attribute that was never assigned raises.\<close>

definition bldpkgs_dir :: "os_env \<Rightarrow> config \<Rightarrow> (error + string) \<times> config" where
  "bldpkgs_dir os self =
     (case attrs self ''noarch'' of
        None \<Rightarrow> (Inl AttributeError, self)
      | Some noarch \<Rightarrow>
          (if truthy noarch
           then (case croot os self of (c, self') \<Rightarrow> (join c (PStr ''noarch''), self'))
           else (case croot os self of (c, self') \<Rightarrow> (join c (PStr (subdir os)), self'))))"

text \<open>Lines 227-230: the pair of both directories.\<close>

definition bldpkgs_dirs :: "os_env \<Rightarrow> config \<Rightarrow> (error + string \<times> string) \<times> config" where
  "bldpkgs_dirs os self =
     (case croot os self of
        (c1, self1) \<Rightarrow>
          (case join c1 (PStr (subdir os)) of
             Inl e \<Rightarrow> (Inl e, self1)
           | Inr d1 \<Rightarrow>
               (case croot os self1 of
                  (c2, self2) \<Rightarrow>
                    (case join c2 (PStr ''noarch'') of
                       Inl e \<Rightarrow> (Inl e, self2)
                     | Inr d2 \<Rightarrow> (Inr (d1, d2), self2)))))"

text \<open>Lines 108-110.\<close>

definition PY3K :: "config \<Rightarrow> int" where
  "PY3K self = (if CONDA_PY self \<ge> 30 then 1 else 0)"

subsection \<open>An example environment\<close>

text \<open>
  A POSIX machine for the closed instances below: home directory \<open>/home/u\<close>, working
  directory \<open>/work\<close>, Python 3.5, no relevant environment variable, no \<open>root-dir\<close>
  setting, an install root that is not writable. Its \<open>expanduser\<close> and \<open>abspath\<close>
  are those of \<open>posixpath\<close> on paths that need no normalisation (no \<open>.\<close>, \<open>..\<close> or
  doubled separator), the only ones the instances use.
\<close>

definition sample_expanduser :: "string \<Rightarrow> string" where
  "sample_expanduser p =
     (if p = ''~'' \<or> take 2 p = ''~/'' then ''/home/u'' @ drop 1 p else p)"

definition sample_abspath :: "string \<Rightarrow> string" where
  "sample_abspath p = (if take 1 p = ''/'' then p else path_join ''/work'' p)"

definition sample_os :: os_env where
  "sample_os =
     \<lparr>environ = Map.empty, version_major = 3, version_minor = 5,
      binstar_upload = PNone, rc_root_dir = None, root_writable = False,
      root_dir = ''/opt/conda'', subdir = ''linux-64'',
      expanduser = sample_expanduser, abspath = sample_abspath\<rparr>"

subsection \<open>The precedence rules as the specification words them\<close>

text \<open>
  A version setting: the explicit override when it is truthy (its element when it is a
  one-element list), else the environment variable when it is set and not empty, else the
  built-in default.
\<close>

definition spec_version :: "pyval \<Rightarrow> string option \<Rightarrow> pyval \<Rightarrow> pyval" where
  "spec_version override envvar dflt =
     (if truthy override then (case override of PList [v] \<Rightarrow> v | _ \<Rightarrow> override)
      else if is_set envvar then PStr (the envvar)
      else dflt)"

text \<open>
  The fallback chain of \<open>croot\<close>: the branches in order, each a condition and the
  directory it yields; the first branch whose condition holds wins.
\<close>

definition spec_croot_chain :: "os_env \<Rightarrow> (bool \<times> string) list" where
  "spec_croot_chain os =
     [(is_set (environ os ''CONDA_BLD_PATH''),
         abspath os (expanduser os (the (environ os ''CONDA_BLD_PATH'')))),
      (is_set (rc_root_dir os), abspath os (expanduser os (the (rc_root_dir os)))),
      (root_writable os, path_join (root_dir os) ''conda-bld''),
      (True, abspath os (expanduser os ''~/conda-bld''))]"

definition first_satisfied :: "(bool \<times> string) list \<Rightarrow> string" where
  "first_satisfied branches = snd (hd (filter fst branches))"

section \<open>The settings merge\<close>

subsection \<open>What a successful merge assigns\<close>

lemma attrs_set_attribute:
  "attrs (set_attribute_from_kwargs kw a d s) =
     (attrs s)(a \<mapsto> kwargs_get kw a (case attrs s a of Some v \<Rightarrow> v | None \<Rightarrow> d))"
  by (simp add: set_attribute_from_kwargs_def)

lemma fields_set_attribute:
  "CONDA_PERL (set_attribute_from_kwargs kw a d s) = CONDA_PERL s"
  "CONDA_LUA (set_attribute_from_kwargs kw a d s) = CONDA_LUA s"
  "CONDA_R (set_attribute_from_kwargs kw a d s) = CONDA_R s"
  "CONDA_PY (set_attribute_from_kwargs kw a d s) = CONDA_PY s"
  "CONDA_NPY (set_attribute_from_kwargs kw a d s) = CONDA_NPY s"
  "priv_build_id (set_attribute_from_kwargs kw a d s) = priv_build_id s"
  "priv_prefix_length (set_attribute_from_kwargs kw a d s) = priv_prefix_length s"
  "priv_croot (set_attribute_from_kwargs kw a d s) = priv_croot s"
  "use_long_build_prefix (set_attribute_from_kwargs kw a d s) = use_long_build_prefix s"
  by (simp_all add: set_attribute_from_kwargs_def)

lemma fields_merge_settings:
  "CONDA_PERL (merge_settings kw xs s) = CONDA_PERL s"
  "CONDA_LUA (merge_settings kw xs s) = CONDA_LUA s"
  "CONDA_R (merge_settings kw xs s) = CONDA_R s"
  "CONDA_PY (merge_settings kw xs s) = CONDA_PY s"
  "CONDA_NPY (merge_settings kw xs s) = CONDA_NPY s"
  "priv_build_id (merge_settings kw xs s) = priv_build_id s"
  "priv_prefix_length (merge_settings kw xs s) = priv_prefix_length s"
  "priv_croot (merge_settings kw xs s) = priv_croot s"
  "use_long_build_prefix (merge_settings kw xs s) = use_long_build_prefix s"
  by (induction xs arbitrary: s; simp add: fields_set_attribute)+

lemma attrs_merge_settings:
  "distinct (map fst xs) \<Longrightarrow>
   attrs (merge_settings kw xs s) k =
     (case map_of xs k of
        None \<Rightarrow> attrs s k
      | Some d \<Rightarrow> Some (kwargs_get kw k (case attrs s k of Some v \<Rightarrow> v | None \<Rightarrow> d)))"
proof (induction xs arbitrary: s)
  case Nil
  show ?case by simp
next
  case (Cons x xs)
  obtain a d where x: "x = (a, d)" by (cases x)
  from Cons.prems have nin: "a \<notin> fst ` set xs" and dist: "distinct (map fst xs)"
    by (simp_all add: x)
  have none: "map_of xs a = None"
    using nin by (simp add: map_of_eq_None_iff)
  show ?case
    using Cons.IH [OF dist, of "set_attribute_from_kwargs kw a d s"] none
    by (simp add: x attrs_set_attribute split: option.splits)
qed

lemma distinct_settings: "distinct (map fst (settings os))"
  by (simp add: settings_def)

lemma set_keys_Inr:
  assumes "set_keys os kw c = Inr c'"
  shows "CONDA_PERL c' = env os kw ''perl'' (PStr ''5.18.2'')"
    and "CONDA_LUA c' = env os kw ''lua'' (PStr ''5.2'')"
    and "CONDA_R c' = env os kw ''r'' (PStr ''3.2.2'')"
    and "int_replace (env os kw ''python'' (PStr (default_python os))) = Inr (CONDA_PY c')"
    and "resolve_npy os kw = Inr (CONDA_NPY c')"
    and "priv_build_id c' = kwargs_get kw ''build_id'' (PStr [])"
    and "priv_prefix_length c' = kwargs_get kw ''prefix_length'' (PInt 80)"
    and "priv_croot c' = kwargs_get kw ''croot'' PNone"
    and "use_long_build_prefix c' = kwargs_get kw ''use_long_build_prefix'' (PBool False)"
    and "attrs c' k =
          (case map_of (settings os) k of
             None \<Rightarrow> attrs c k
           | Some d \<Rightarrow> Some (kwargs_get kw k (case attrs c k of Some v \<Rightarrow> v | None \<Rightarrow> d)))"
  using assms
  unfolding set_keys_def Let_def
  by (auto split: sum.splits option.splits
      simp: fields_merge_settings attrs_merge_settings [OF distinct_settings])

lemma set_keys_succeeds:
  assumes "int_replace (env os kw ''python'' (PStr (default_python os))) = Inr py"
      and "resolve_npy os kw = Inr npy"
  shows "\<exists>c'. set_keys os kw c = Inr c'"
  using assms by (simp add: set_keys_def Let_def)

subsection \<open>The nested function env\<close>

lemma env_var_names:
  "env_var ''perl'' = ''CONDA_PERL''"
  "env_var ''lua'' = ''CONDA_LUA''"
  "env_var ''r'' = ''CONDA_R''"
  "env_var ''python'' = ''CONDA_PY''"
  by code_simp+

lemma env_spec_version:
  "env os kw lang d = spec_version (kwargs_get kw lang PNone) (environ os (env_var lang)) d"
  by (auto simp: env_def spec_version_def getenv_def is_set_def Let_def split: option.splits)

subsection \<open>What int returns\<close>

lemma digit_not_space: "is_digit c \<Longrightarrow> \<not> is_space c"
  by (auto simp: is_digit_def is_space_def)

lemma not_digit_sign: "\<not> is_digit CHR ''-''" "\<not> is_digit CHR ''+''" "\<not> is_digit CHR ''.''"
  "\<not> is_digit CHR ''_''"
  by (simp_all add: is_digit_def)

lemma minus_not_space: "\<not> is_space CHR ''-''"
  by (simp add: is_space_def)

lemma filter_dropWhile:
  "(\<And>x. Q x \<Longrightarrow> \<not> P x) \<Longrightarrow> filter P (dropWhile Q xs) = filter P xs"
  by (induction xs) auto

lemma filter_strip:
  assumes "\<And>x. is_space x \<Longrightarrow> \<not> P x"
  shows "filter P (strip s) = filter P s"
proof -
  have "filter P (strip s) = rev (filter P (dropWhile is_space (rev (dropWhile is_space s))))"
    by (simp add: strip_def rev_filter)
  also have "\<dots> = rev (filter P (rev (dropWhile is_space s)))"
    by (simp only: filter_dropWhile [of is_space P, OF assms])
  also have "\<dots> = filter P (dropWhile is_space s)"
    by (simp add: rev_filter)
  also have "\<dots> = filter P s"
    by (rule filter_dropWhile [OF assms])
  finally show ?thesis .
qed

lemma mem_strip:
  assumes "\<not> is_space a"
  shows "(a \<in> set (strip s)) = (a \<in> set s)"
proof -
  have "filter (\<lambda>x. x = a) (strip s) = filter (\<lambda>x. x = a) s"
    by (rule filter_strip) (use assms in blast)
  then have "set (filter (\<lambda>x. x = a) (strip s)) = set (filter (\<lambda>x. x = a) s)"
    by simp
  then show ?thesis by auto
qed

lemma digit_seq_chars: "digit_seq ds \<Longrightarrow> \<forall>c\<in>set ds. is_digit c \<or> c = CHR ''_''"
  by (induction ds rule: digit_seq.induct) (auto split: if_splits)

lemma digit_seq_no_minus: "digit_seq ds \<Longrightarrow> CHR ''-'' \<notin> set ds"
  using digit_seq_chars [of ds] not_digit_sign(1) by auto

text \<open>What a successful \<open>int\<close> returns: the number written by the digits, negated under a minus sign.\<close>

lemma py_int_value:
  assumes "py_int t = Some n"
  shows "n = (if CHR ''-'' \<in> set t then - int (digits_value (filter is_digit t))
              else int (digits_value (filter is_digit t)))"
proof -
  have dig: "filter is_digit (strip t) = filter is_digit t"
    by (rule filter_strip) (use digit_not_space in blast)
  have mem: "(CHR ''-'' \<in> set (strip t)) = (CHR ''-'' \<in> set t)"
    by (rule mem_strip [OF minus_not_space])
  show ?thesis
  proof (cases "strip t")
    case Nil
    then show ?thesis using assms by (simp add: py_int_def)
  next
    case (Cons c r)
    let ?ds = "if c = CHR ''-'' \<or> c = CHR ''+'' then r else c # r"
    have seq: "digit_seq ?ds"
      and n: "n = (if c = CHR ''-'' then - int (digits_value (filter is_digit ?ds))
                   else int (digits_value (filter is_digit ?ds)))"
      using assms by (auto simp: py_int_def Cons Let_def split: if_splits)
    have nm: "CHR ''-'' \<notin> set ?ds"
      by (rule digit_seq_no_minus [OF seq])
    have "filter is_digit (c # r) = filter is_digit ?ds"
      using not_digit_sign by auto
    moreover have "(CHR ''-'' \<in> set (c # r)) = (c = CHR ''-'')"
      using nm by (auto split: if_splits)
    ultimately show ?thesis
      using n dig mem by (simp only: Cons)
  qed
qed

lemma replace_dot_digits: "filter is_digit (replace_dot s) = filter is_digit s"
  unfolding replace_dot_def filter_filter
  by (rule filter_cong [OF refl]) (use not_digit_sign(3) in auto)

lemma replace_dot_minus: "(CHR ''-'' \<in> set (replace_dot s)) = (CHR ''-'' \<in> set s)"
  by (auto simp: replace_dot_def)

lemma int_replace_value:
  assumes "int_replace v = Inr n"
  shows "\<exists>s. v = PStr s \<and>
           n = (if CHR ''-'' \<in> set s then - int (digits_value (filter is_digit s))
                else int (digits_value (filter is_digit s)))"
proof (cases v)
  case (PStr s)
  then have "py_int (replace_dot s) = Some n"
    using assms by (simp add: int_replace_def split: option.splits)
  from py_int_value [OF this] show ?thesis
    by (simp only: PStr replace_dot_digits replace_dot_minus) simp
qed (use assms in \<open>simp_all add: int_replace_def\<close>)

section \<open>The fixed-length build prefix\<close>

lemma str_less_append: "str_less s (s @ t) = (t \<noteq> [])"
  by (induction s) (cases t; simp)+

lemma str_less_take: "\<not> str_less s (take n s)"
proof (induction s arbitrary: n)
  case Nil
  show ?case by simp
next
  case (Cons a s)
  show ?case by (cases n) (simp_all add: Cons.IH)
qed

lemma length_str_times: "length (str_times n s) = nat n * length s"
  by (simp add: str_times_def length_concat sum_list_replicate)

text \<open>\<open>ceil_div\<close> is the ceiling of the true quotient, and so reaches the dividend.\<close>

lemma ceil_div_ceiling: "0 < b \<Longrightarrow> ceil_div a b = \<lceil>real_of_int a / real_of_int b\<rceil>"
proof -
  have "- (real_of_int a / real_of_int b) = real_of_int (- a) / real_of_int b"
    by simp
  then show ?thesis
    unfolding ceil_div_def ceiling_def by (simp only: floor_divide_of_int_eq)
qed

lemma ceil_div_ge: "0 < b \<Longrightarrow> a \<le> ceil_div a b * b"
  unfolding ceil_div_def
  by (smt (verit) minus_mult_minus mult.commute neg_le_iff_le mult_minus_left
      div_mult_self_is_m pos_mod_sign mult_div_mod_eq)

text \<open>
  Claim C1. For every stub and every target length \<open>L \<ge> 1\<close>, the build prefix has
  length exactly \<open>L\<close> when the stub is shorter than \<open>L\<close>, is the stub itself when the
  stub has length \<open>L\<close> or more, and is never shorter than the stub.
\<close>

theorem build_prefix_length:
  assumes "1 \<le> L"
  shows "(int (length stub) < L \<longrightarrow> int (length (build_prefix_of stub L)) = L)
       \<and> (L \<le> int (length stub) \<longrightarrow> build_prefix_of stub L = stub)
       \<and> length stub \<le> length (build_prefix_of stub L)"
proof -
  define r where "r = ceil_div (L - int (length stub)) 10 + 1"
  have bp: "build_prefix_of stub L = str_max stub (slice_to (stub @ str_times r ''_placehold'') L)"
    by (simp add: build_prefix_of_def r_def Let_def)
  have sl: "slice_to (stub @ str_times r ''_placehold'') L
              = take (nat L) (stub @ str_times r ''_placehold'')"
    using assms by (simp add: slice_to_def)
  have short: "build_prefix_of stub L = stub" if "L \<le> int (length stub)"
  proof -
    have "take (nat L) (stub @ str_times r ''_placehold'') = take (nat L) stub"
      using that assms by (simp add: nat_le_iff)
    then show ?thesis
      by (simp only: bp sl str_max_def str_less_take if_False)
  qed
  have long: "int (length (build_prefix_of stub L)) = L" if "int (length stub) < L"
  proof -
    have "L - int (length stub) \<le> ceil_div (L - int (length stub)) 10 * 10"
      by (rule ceil_div_ge) simp
    then have r: "L - int (length stub) \<le> r * 10" "0 \<le> r"
      using that by (simp_all add: r_def)
    have len: "L \<le> int (length (stub @ str_times r ''_placehold''))"
      using r by (simp add: length_str_times)
    have tk: "take (nat L) (stub @ str_times r ''_placehold'')
                = stub @ take (nat L - length stub) (str_times r ''_placehold'')"
      using that by simp
    have "0 < r"
      using r that by linarith
    then have "0 < nat L - length stub" "0 < length (str_times r ''_placehold'')"
      using that by (simp_all add: length_str_times)
    then have ne: "take (nat L - length stub) (str_times r ''_placehold'') \<noteq> []"
      by auto
    have "build_prefix_of stub L = take (nat L) (stub @ str_times r ''_placehold'')"
      by (simp only: bp sl tk str_max_def str_less_append ne) simp
    then show ?thesis using len assms by simp
  qed
  show ?thesis using short long by (cases "int (length stub) < L") auto
qed

theorem build_prefix_length_witness:
  "(1::int) \<le> 30 \<and> int (length ''/tmp/bld/_build_env'') < 30
   \<and> int (length (build_prefix_of ''/tmp/bld/_build_env'' 30)) = 30"
  using build_prefix_length [of 30 "''/tmp/bld/_build_env''"] by simp

lemma build_prefix_of_example:
  "build_prefix_of ''/tmp/bld/_build_env'' 30 = ''/tmp/bld/_build_env_placehold_''"
  by code_simp

section \<open>Version settings\<close>

text \<open>
  Claim C3. For perl, lua, r and python the resolved value is the explicit override when
  it is truthy, else the environment variable (\<open>CONDA_PERL\<close>, \<open>CONDA_LUA\<close>, \<open>CONDA_R\<close>,
  and \<open>CONDA_PY\<close> for python) when it is set and not empty, else the built-in default; an
  environment variable set to the empty string counts as not set. For python the resolved
  string is then converted to the integer stored in \<open>CONDA_PY\<close>.
\<close>

theorem version_precedence:
  assumes "set_keys os kw c = Inr c'"
  shows "CONDA_PERL c' =
           spec_version (kwargs_get kw ''perl'' PNone) (environ os ''CONDA_PERL'') (PStr ''5.18.2'')
       \<and> CONDA_LUA c' =
           spec_version (kwargs_get kw ''lua'' PNone) (environ os ''CONDA_LUA'') (PStr ''5.2'')
       \<and> CONDA_R c' =
           spec_version (kwargs_get kw ''r'' PNone) (environ os ''CONDA_R'') (PStr ''3.2.2'')
       \<and> int_replace
           (spec_version (kwargs_get kw ''python'' PNone) (environ os ''CONDA_PY'')
              (PStr (default_python os))) = Inr (CONDA_PY c')"
  using set_keys_Inr(1-4) [OF assms]
  by (simp add: env_spec_version env_var_names)

lemma int_replace_27: "int_replace (PStr ''2.7'') = Inr 27"
  by code_simp

theorem version_precedence_witness:
  "case set_keys
          (sample_os\<lparr>environ := [''CONDA_PERL'' \<mapsto> ''5.20.3'', ''CONDA_LUA'' \<mapsto> []]\<rparr>)
          [(''r'', PStr ''3.3.1''), (''python'', PStr ''2.7'')] new_object of
     Inl e \<Rightarrow> False
   | Inr c \<Rightarrow> CONDA_PERL c = PStr ''5.20.3'' \<and> CONDA_LUA c = PStr ''5.2''
              \<and> CONDA_R c = PStr ''3.3.1'' \<and> CONDA_PY c = 27"
proof -
  let ?os = "sample_os\<lparr>environ := [''CONDA_PERL'' \<mapsto> ''5.20.3'', ''CONDA_LUA'' \<mapsto> []]\<rparr>"
  let ?kw = "[(''r'', PStr ''3.3.1''), (''python'', PStr ''2.7'')]"
  have "\<not> isl (set_keys ?os ?kw new_object)"
    by code_simp
  then obtain c where c: "set_keys ?os ?kw new_object = Inr c"
    by (cases "set_keys ?os ?kw new_object") auto
  from version_precedence [OF c] show ?thesis
    by (simp add: c spec_version_def kwargs_get_def is_set_def int_replace_27)
qed

text \<open>
  Claim C6, as the code has it. After a merge that returns, the resolved python version is
  a string and \<open>CONDA_PY\<close> is the number written by its digits, in order, with every dot
  removed (and with them the surrounding whitespace and the underscores that \<open>int\<close>
  accepts), negated when the string carries a minus sign. \<open>PY3K\<close> is 1 exactly when
  \<open>CONDA_PY\<close> is at least 30, and 0 otherwise.
\<close>

theorem conda_py_value:
  assumes "set_keys os kw c = Inr c'"
  shows "(\<exists>s. env os kw ''python'' (PStr (default_python os)) = PStr s
            \<and> CONDA_PY c' = (if CHR ''-'' \<in> set s
                              then - int (digits_value (filter is_digit s))
                              else int (digits_value (filter is_digit s))))
       \<and> (PY3K c' = 1 \<longleftrightarrow> 30 \<le> CONDA_PY c')
       \<and> (PY3K c' = 0 \<longleftrightarrow> CONDA_PY c' < 30)"
  using int_replace_value [OF set_keys_Inr(4) [OF assms]]
  by (simp add: PY3K_def)

lemma digits_310: "int (digits_value (filter is_digit ''3.10'')) = 310"
  by code_simp

theorem conda_py_value_witness:
  "case Config sample_os [(''python'', PStr ''3.10'')] of
     Inl e \<Rightarrow> False
   | Inr c \<Rightarrow> CONDA_PY c = 310 \<and> PY3K c = 1"
proof -
  let ?kw = "[(''python'', PStr ''3.10'')]"
  have "\<not> isl (Config sample_os ?kw)"
    by code_simp
  then obtain c where c: "set_keys sample_os ?kw new_object = Inr c"
    by (cases "Config sample_os ?kw") (auto simp: Config_def)
  have e: "env sample_os ?kw ''python'' (PStr (default_python sample_os)) = PStr ''3.10''"
    by (simp add: env_def kwargs_get_def)
  from conda_py_value [OF c] obtain s
    where s: "PStr ''3.10'' = PStr s"
      and v: "CONDA_PY c = (if CHR ''-'' \<in> set s
                              then - int (digits_value (filter is_digit s))
                              else int (digits_value (filter is_digit s)))"
      and p: "(PY3K c = 1) = (30 \<le> CONDA_PY c)"
    unfolding e by blast
  from s have "s = ''3.10''" by simp
  with v have "CONDA_PY c = 310"
    by (simp only: digits_310) simp
  with p show ?thesis
    by (simp add: Config_def c)
qed

text \<open>
  Where claim C6 fails as stated: the override \<open>-3.5\<close> resolves to \<open>-35\<close>, not to the 35
  that its digits write, and \<open>PY3K\<close> is 0.
\<close>

theorem signed_python_version:
  "case Config sample_os [(''python'', PStr ''-3.5'')] of
     Inl e \<Rightarrow> False
   | Inr c \<Rightarrow> CONDA_PY c = - 35 \<and> PY3K c = 0
              \<and> int (digits_value (filter is_digit (replace_dot ''-3.5''))) = 35"
  by code_simp

text \<open>Further resolved versions: padded with blanks, Python 2.7, a no-break space, an underscore.\<close>

lemma conda_py_examples:
  "case Config sample_os [(''python'', PStr '' 3.5 '')] of
     Inl e \<Rightarrow> False | Inr c \<Rightarrow> CONDA_PY c = 35 \<and> PY3K c = 1"
  "case Config sample_os [(''python'', PStr ''2.7'')] of
     Inl e \<Rightarrow> False | Inr c \<Rightarrow> CONDA_PY c = 27 \<and> PY3K c = 0"
  "case Config sample_os [(''python'', PStr (''3.5'' @ [CHR 0xA0]))] of
     Inl e \<Rightarrow> False | Inr c \<Rightarrow> CONDA_PY c = 35"
  "case Config sample_os [(''python'', PStr ''3_5'')] of
     Inl e \<Rightarrow> False | Inr c \<Rightarrow> CONDA_PY c = 35"
  by code_simp+

section \<open>Merging overrides\<close>

lemma settings_names:
  "map fst (settings os) =
     [''activate'', ''anaconda_upload'', ''channel_urls'', ''dirty'', ''include_recipe'',
      ''keep_old_work'', ''noarch'', ''no_download_source'', ''override_channels'',
      ''skip_existing'', ''token'', ''user'', ''verbose'']"
  by (simp add: settings_def)

lemma settings_lookup:
  assumes "k \<in> set (map fst (settings os))"
  shows "\<exists>d. map_of (settings os) k = Some d"
proof (cases "map_of (settings os) k")
  case None
  then show ?thesis using assms by (simp add: map_of_eq_None_iff)
next
  case (Some d)
  then show ?thesis by blast
qed

lemma Config_is_set_keys: "Config os kw = set_keys os kw new_object"
  by (simp add: Config_def)

lemma get_or_merge_config_merges:
  "kw \<noteq> [] \<Longrightarrow> get_or_merge_config os (Some c) kw = set_keys os kw c"
  by (simp add: get_or_merge_config_def)

text \<open>
  Claim C10. A call of \<open>set_keys\<close> that returns, and whose keyword arguments omit
  \<open>build_id\<close>, \<open>prefix_length\<close>, \<open>croot\<close> or \<open>use_long_build_prefix\<close>, leaves that
  attribute at its default (the empty string, 80, \<open>None\<close>, \<open>False\<close>) whatever it was
  before, while each of the thirteen settings of the table keeps the value it had when it
  is omitted. \<open>Config\<close> and \<open>get_or_merge_config\<close> with keyword arguments are such calls
  (the two lemmas above).
\<close>

theorem set_keys_resets:
  assumes "set_keys os kw c = Inr c'"
  shows "(map_of kw ''build_id'' = None \<longrightarrow> priv_build_id c' = PStr [])
       \<and> (map_of kw ''prefix_length'' = None \<longrightarrow> priv_prefix_length c' = PInt 80)
       \<and> (map_of kw ''croot'' = None \<longrightarrow> priv_croot c' = PNone)
       \<and> (map_of kw ''use_long_build_prefix'' = None \<longrightarrow> use_long_build_prefix c' = PBool False)
       \<and> (\<forall>k v. k \<in> set [''activate'', ''anaconda_upload'', ''channel_urls'', ''dirty'',
                            ''include_recipe'', ''keep_old_work'', ''noarch'',
                            ''no_download_source'', ''override_channels'', ''skip_existing'',
                            ''token'', ''user'', ''verbose'']
                \<and> map_of kw k = None \<and> attrs c k = Some v
              \<longrightarrow> attrs c' k = Some v)"
proof -
  have keep: "attrs c' k = Some v"
    if mem: "k \<in> set (map fst (settings os))"
      and omitted: "map_of kw k = None" and before: "attrs c k = Some v" for k v
  proof -
    from settings_lookup [OF mem] obtain d where "map_of (settings os) k = Some d"
      by blast
    then show ?thesis
      using set_keys_Inr(10) [OF assms, of k] omitted before by (simp add: kwargs_get_def)
  qed
  show ?thesis
    using set_keys_Inr(6-9) [OF assms] keep
    unfolding settings_names by (simp add: kwargs_get_def)
qed

theorem set_keys_resets_witness:
  "case set_keys sample_os [(''verbose'', PBool True)]
          (new_object\<lparr>priv_build_id := PStr ''foo-1'', priv_prefix_length := PInt 255,
                priv_croot := PStr ''/tmp/bld'', use_long_build_prefix := PBool True,
                attrs := [''noarch'' \<mapsto> PBool True]\<rparr>) of
     Inl e \<Rightarrow> False
   | Inr c' \<Rightarrow> priv_build_id c' = PStr [] \<and> priv_prefix_length c' = PInt 80
        \<and> priv_croot c' = PNone \<and> use_long_build_prefix c' = PBool False
        \<and> attrs c' ''noarch'' = Some (PBool True)"
proof -
  let ?c = "new_object\<lparr>priv_build_id := PStr ''foo-1'', priv_prefix_length := PInt 255,
                priv_croot := PStr ''/tmp/bld'', use_long_build_prefix := PBool True,
                attrs := [''noarch'' \<mapsto> PBool True]\<rparr>"
  let ?kw = "[(''verbose'', PBool True)]"
  have "\<not> isl (set_keys sample_os ?kw ?c)"
    by code_simp
  then obtain c' where c': "set_keys sample_os ?kw ?c = Inr c'"
    by (cases "set_keys sample_os ?kw ?c") auto
  from set_keys_resets [OF c'] show ?thesis
    by (simp add: c')
qed

text \<open>
  Claim C2. The specification has \<open>build_id\<close>, \<open>prefix_length\<close> and \<open>croot\<close> resolve as
  override, then current value, then default, as the thirteen settings of the table do
  through \<open>_set_attribute_from_kwargs\<close>. The code assigns them with \<open>kwargs.get(name,
  default)\<close>: a later merge that omits them loses the earlier value. Evaluated on a
  configuration built with a build id and a prefix length, then merged with
  \<open>verbose=True\<close>.
\<close>

theorem merge_forgets_build_id:
  "case Config sample_os [(''build_id'', PStr ''foo-1.0-123456''), (''prefix_length'', PInt 255)] of
     Inl e \<Rightarrow> False
   | Inr c \<Rightarrow>
       build_id c = PStr ''foo-1.0-123456'' \<and> prefix_length c = PInt 255 \<and>
       (case get_or_merge_config sample_os (Some c) [(''verbose'', PBool True)] of
          Inl e \<Rightarrow> False
        | Inr c' \<Rightarrow> build_id c' = PStr [] \<and> prefix_length c' = PInt 80)"
  by code_simp

text \<open>
  A one-element list is unwrapped by \<open>env\<close>, so for perl, lua, r and python the list
  \<open>[v]\<close> resolves as \<open>v\<close> does, for every truthy \<open>v\<close> that is not itself a one-element
  list.
\<close>

lemma env_single_element_list:
  assumes "truthy v" and "\<And>x. v \<noteq> PList [x]"
  shows "env os ((lang, PList [v]) # kw) lang d = env os ((lang, v) # kw) lang d"
  using assms by (cases v) (auto simp: env_def kwargs_get_def Let_def split: list.splits)

text \<open>
  Claim C7. A one-element list override should resolve exactly as its element does. The
  numpy override does not go through \<open>env\<close>: the list reaches
  \<open>self.CONDA_NPY.replace\<close> and the merge raises, where the scalar resolves to 111.
\<close>

theorem numpy_list_raises:
  "(case Config sample_os [(''numpy'', PList [PStr ''1.11''])] of
        Inl e \<Rightarrow> e = AttributeError
      | Inr c \<Rightarrow> False)
   \<and> (case Config sample_os [(''numpy'', PStr ''1.11'')] of
        Inl e \<Rightarrow> False
      | Inr c \<Rightarrow> CONDA_NPY c = PInt 111)"
  by code_simp

section \<open>Malformed versions\<close>









section \<open>The build root\<close>

lemma croot_cached: "truthy (priv_croot self) \<Longrightarrow> croot os self = (priv_croot self, self)"
  by (simp add: croot_def)

lemma croot_fallback:
  "\<not> truthy (priv_croot self) \<Longrightarrow>
   croot os self = (PStr (first_satisfied (spec_croot_chain os)),
                    self\<lparr>priv_croot := PStr (first_satisfied (spec_croot_chain os))\<rparr>)"
  by (simp add: croot_def first_satisfied_def spec_croot_chain_def Let_def)

lemma croot_twice: "fst (croot os (snd (croot os self))) = fst (croot os self)"
proof (cases "truthy (priv_croot self)")
  case True
  then show ?thesis by (simp add: croot_cached)
next
  case False
  show ?thesis
    by (cases "first_satisfied (spec_croot_chain os) = []")
       (simp_all add: croot_fallback [OF False] croot_cached croot_fallback)
qed

lemma build_id_after_croot: "build_id (snd (croot os self)) = build_id self"
  by (cases "truthy (priv_croot self)") (simp_all add: croot_cached croot_fallback build_id_def)

lemma attrs_after_croot: "attrs (snd (croot os self)) = attrs self"
  by (cases "truthy (priv_croot self)") (simp_all add: croot_cached croot_fallback)

lemma prefix_length_after_croot: "prefix_length (snd (croot os self)) = prefix_length self"
  by (cases "truthy (priv_croot self)") (simp_all add: croot_cached croot_fallback prefix_length_def)

text \<open>
  Claim C4, as the code has it. A truthy \<open>_croot\<close> is returned as it is, with no
  expansion and no change of the object. Otherwise the fallback chain runs (the
  \<open>CONDA_BLD_PATH\<close> variable, the \<open>root-dir\<close> setting, \<open>root_dir/conda-bld\<close> when the
  install root is writable, \<open>~/conda-bld\<close>; the first three and the last expanded), its
  first satisfied branch is returned and stored in \<open>_croot\<close>. A stored non-empty result is
  what later accesses return, also under a changed environment, and after the setter has
  stored \<open>None\<close> the next access runs the chain again.
\<close>

theorem croot_resolution:
  "(truthy (priv_croot self) \<longrightarrow> croot os self = (priv_croot self, self))
   \<and> (\<not> truthy (priv_croot self) \<longrightarrow>
        croot os self = (PStr (first_satisfied (spec_croot_chain os)),
                         self\<lparr>priv_croot := PStr (first_satisfied (spec_croot_chain os))\<rparr>))
   \<and> (first_satisfied (spec_croot_chain os) \<noteq> [] \<longrightarrow>
        fst (croot os' (snd (croot os self))) = fst (croot os self))
   \<and> fst (croot os (croot_setter PNone self)) = PStr (first_satisfied (spec_croot_chain os))"
proof -
  have cached: "fst (croot os' (snd (croot os self))) = fst (croot os self)"
    if "first_satisfied (spec_croot_chain os) \<noteq> []"
    using that by (cases "truthy (priv_croot self)") (simp_all add: croot_cached croot_fallback)
  have reset: "fst (croot os (croot_setter PNone self)) = PStr (first_satisfied (spec_croot_chain os))"
    by (simp add: croot_fallback croot_setter_def)
  show ?thesis
    using cached reset by (simp add: croot_cached croot_fallback)
qed

lemma sample_chain: "first_satisfied (spec_croot_chain sample_os) = ''/home/u/conda-bld''"
  by code_simp

theorem croot_resolution_witness:
  "fst (croot sample_os new_object) = PStr ''/home/u/conda-bld''
   \<and> fst (croot (sample_os\<lparr>root_writable := True\<rparr>) (snd (croot sample_os new_object)))
       = PStr ''/home/u/conda-bld''
   \<and> fst (croot sample_os (croot_setter (PStr ''/tmp/bld'') new_object)) = PStr ''/tmp/bld''
   \<and> fst (croot sample_os (croot_setter PNone (croot_setter (PStr ''/tmp/bld'') new_object)))
       = PStr ''/home/u/conda-bld''"
proof -
  let ?explicit = "croot_setter (PStr ''/tmp/bld'') new_object"
  have unset: "\<not> truthy (priv_croot new_object)"
    by (simp add: new_object_def)
  have given: "truthy (priv_croot ?explicit)" "priv_croot ?explicit = PStr ''/tmp/bld''"
    by (simp_all add: croot_setter_def)
  have ne: "first_satisfied (spec_croot_chain sample_os) \<noteq> []"
    by (simp add: sample_chain)
  note a = croot_resolution [of new_object sample_os "sample_os\<lparr>root_writable := True\<rparr>"]
  note b = croot_resolution [of ?explicit sample_os sample_os]
  have 1: "fst (croot sample_os new_object) = PStr ''/home/u/conda-bld''"
    using a unset by (simp add: sample_chain)
  have 2: "fst (croot (sample_os\<lparr>root_writable := True\<rparr>) (snd (croot sample_os new_object)))
             = PStr ''/home/u/conda-bld''"
    using a ne 1 by metis
  have 3: "fst (croot sample_os ?explicit) = PStr ''/tmp/bld''"
    using b given by simp
  have 4: "fst (croot sample_os (croot_setter PNone ?explicit)) = PStr ''/home/u/conda-bld''"
    using b by (simp add: sample_chain)
  show ?thesis
    using 1 2 3 4 by blast
qed

text \<open>
  Where claim C4 fails as stated: an explicit \<open>croot\<close> of \<open>~/bld\<close> is returned unexpanded,
  although its expansion is \<open>/home/u/bld\<close>.
\<close>

theorem croot_explicit_not_expanded:
  "(case Config sample_os [(''croot'', PStr ''~/bld'')] of
      Inl e \<Rightarrow> False
    | Inr c \<Rightarrow> fst (croot sample_os c) = PStr ''~/bld'')
   \<and> abspath sample_os (expanduser sample_os ''~/bld'') = ''/home/u/bld''"
  by code_simp

section \<open>Derived paths\<close>

lemma path_join_empty: "path_join c [] = (if c = [] \<or> last c = CHR ''/'' then c else c @ ''/'')"
  by (simp add: path_join_def)

lemma path_join_after_sep: "path_join (path_join c []) leaf = path_join c leaf"
  by (simp add: path_join_def)

lemma build_folder_value:
  assumes "fst (croot os self) = PStr c" and "build_id self = PStr b"
  shows "fst (build_folder os self) = Inr (path_join c b)"
proof -
  obtain v self' where cr: "croot os self = (v, self')" by (cases "croot os self")
  have "v = PStr c" using assms(1) cr by simp
  moreover have "build_id self' = PStr b"
    using build_id_after_croot [of os self] cr assms(2) by simp
  ultimately show ?thesis
    by (simp add: build_folder_def cr join_def)
qed

lemma under_build_folder_value:
  assumes "fst (croot os self) = PStr c" and "build_id self = PStr b"
  shows "fst (under_build_folder os leaf self) = Inr (path_join (path_join c b) leaf)"
  using build_folder_value [OF assms]
  by (cases "build_folder os self") (simp add: under_build_folder_def)

lemma build_folder_state: "snd (build_folder os self) = snd (croot os self)"
  by (cases "croot os self") (simp add: build_folder_def)

text \<open>\<open>build_prefix\<close> applies the placeholder algorithm to the stub under the build folder.\<close>

lemma build_prefix_value:
  assumes "fst (croot os self) = PStr c" and "build_id self = PStr b"
      and "prefix_length self = PInt n"
  shows "fst (build_prefix os self) =
           Inr (build_prefix_of (path_join (path_join c b) ''_build_env'') n)"
proof -
  obtain r self' where u: "under_build_folder os ''_build_env'' self = (r, self')"
    by (cases "under_build_folder os ''_build_env'' self")
  have r: "r = Inr (path_join (path_join c b) ''_build_env'')"
    using under_build_folder_value [OF assms(1,2), of "''_build_env''"] u by simp
  have "self' = snd (croot os self)"
    using u build_folder_state [of os self]
    by (cases "build_folder os self") (auto simp: under_build_folder_def split: sum.splits)
  then have "prefix_length self' = PInt n"
    using assms(3) by (simp add: prefix_length_after_croot)
  then show ?thesis
    by (simp add: build_prefix_def u r)
qed

lemma path_join_examples:
  "path_join ''/tmp/bld'' ''_test_env'' = ''/tmp/bld/_test_env''"
  "path_join ''/tmp/bld'' ''work'' = ''/tmp/bld/work''"
  "path_join ''/tmp/bld'' ''test_tmp'' = ''/tmp/bld/test_tmp''"
  "path_join ''/tmp/bld'' ''_build_env'' = ''/tmp/bld/_build_env''"
  "path_join ''/home/u/conda-bld'' ''noarch'' = ''/home/u/conda-bld/noarch''"
  "path_join ''/home/u/conda-bld'' ''linux-64'' = ''/home/u/conda-bld/linux-64''"
  by (simp_all add: path_join_def)

text \<open>
  Claim C8, as the code has it. \<open>build_id\<close> is the empty string after a merge that omits
  it. With an empty \<open>build_id\<close>, \<open>build_folder\<close> is \<open>croot\<close> followed by one separator
  (\<open>croot\<close> itself when it is empty or already ends with one), and \<open>test_prefix\<close>,
  \<open>work_dir\<close>, \<open>test_dir\<close> and the stub of \<open>build_prefix\<close> are their leaf joined onto
  \<open>croot\<close>.
\<close>

theorem build_id_unset_paths:
  assumes "fst (croot os self) = PStr c"
  shows "(set_keys os kw c0 = Inr self \<and> map_of kw ''build_id'' = None \<longrightarrow> build_id self = PStr [])
       \<and> (build_id self = PStr [] \<longrightarrow>
            fst (build_folder os self) = Inr (if c = [] \<or> last c = CHR ''/'' then c else c @ ''/'')
          \<and> fst (test_prefix os self) = Inr (path_join c ''_test_env'')
          \<and> fst (work_dir os self) = Inr (path_join c ''work'')
          \<and> fst (test_dir os self) = Inr (path_join c ''test_tmp'')
          \<and> (\<forall>n. prefix_length self = PInt n \<longrightarrow>
                fst (build_prefix os self) = Inr (build_prefix_of (path_join c ''_build_env'') n)))"
proof -
  have dflt: "build_id self = PStr []"
    if "set_keys os kw c0 = Inr self" "map_of kw ''build_id'' = None"
    using set_keys_Inr(6) [OF that(1)] that(2) by (simp add: build_id_def kwargs_get_def)
  have paths: "fst (build_folder os self) = Inr (if c = [] \<or> last c = CHR ''/'' then c else c @ ''/'')"
      "fst (under_build_folder os leaf self) = Inr (path_join c leaf)"
    if "build_id self = PStr []" for leaf
    using build_folder_value [OF assms that] under_build_folder_value [OF assms that, of leaf]
    by (simp_all only: path_join_after_sep) (simp only: path_join_empty)
  have bp: "fst (build_prefix os self) = Inr (build_prefix_of (path_join c ''_build_env'') n)"
    if e: "build_id self = PStr []" and n: "prefix_length self = PInt n" for n
    using build_prefix_value [OF assms e n] by (simp only: path_join_after_sep)
  show ?thesis
    using dflt paths bp by (simp add: test_prefix_def work_dir_def test_dir_def)
qed

theorem build_id_unset_paths_witness:
  "case Config sample_os [(''croot'', PStr ''/tmp/bld'')] of
     Inl e \<Rightarrow> False
   | Inr c \<Rightarrow> build_id c = PStr []
       \<and> fst (build_folder sample_os c) = Inr ''/tmp/bld/''
       \<and> fst (test_prefix sample_os c) = Inr ''/tmp/bld/_test_env''
       \<and> fst (work_dir sample_os c) = Inr ''/tmp/bld/work''
       \<and> fst (test_dir sample_os c) = Inr ''/tmp/bld/test_tmp''
       \<and> fst (build_prefix sample_os c) = Inr (build_prefix_of ''/tmp/bld/_build_env'' 80)"
proof -
  let ?kw = "[(''croot'', PStr ''/tmp/bld'')]"
  have "\<not> isl (Config sample_os ?kw)"
    by code_simp
  then obtain c where c: "set_keys sample_os ?kw new_object = Inr c"
    by (cases "Config sample_os ?kw") (auto simp: Config_def)
  have "priv_croot c = PStr ''/tmp/bld''"
    using set_keys_Inr(8) [OF c] by (simp add: kwargs_get_def)
  then have cr: "fst (croot sample_os c) = PStr ''/tmp/bld''"
    by (simp add: croot_cached)
  have pl: "prefix_length c = PInt 80"
    using set_keys_Inr(7) [OF c] by (simp add: kwargs_get_def prefix_length_def)
  have omitted: "map_of ?kw ''build_id'' = None"
    by simp
  from build_id_unset_paths [OF cr, of ?kw new_object] c omitted pl
  show ?thesis
    by (simp add: Config_def path_join_examples)
qed

text \<open>
  Where claim C8 fails as stated: with \<open>croot = /tmp/bld\<close> and no \<open>build_id\<close>,
  \<open>build_folder\<close> is \<open>/tmp/bld/\<close>, not \<open>croot\<close>.
\<close>

theorem build_folder_not_croot:
  "case Config sample_os [(''croot'', PStr ''/tmp/bld'')] of
     Inl e \<Rightarrow> False
   | Inr c \<Rightarrow> build_id c = PStr []
       \<and> fst (croot sample_os c) = PStr ''/tmp/bld''
       \<and> fst (build_folder sample_os c) = Inr ''/tmp/bld/''"
  by code_simp

text \<open>
  Claim C9. \<open>bldpkgs_dir\<close> is \<open>noarch\<close> joined onto \<open>croot\<close> when the noarch flag is
  truthy and the platform subdir joined onto \<open>croot\<close> otherwise; \<open>bldpkgs_dirs\<close> is the
  pair of both, whatever the flag.
\<close>

theorem bldpkgs_layout:
  assumes "fst (croot os self) = PStr c"
  shows "(\<forall>noarch. attrs self ''noarch'' = Some noarch \<longrightarrow>
            fst (bldpkgs_dir os self) =
              Inr (if truthy noarch then path_join c ''noarch'' else path_join c (subdir os)))
       \<and> fst (bldpkgs_dirs os self) = Inr (path_join c (subdir os), path_join c ''noarch'')"
proof -
  obtain v self' where cr: "croot os self = (v, self')" by (cases "croot os self")
  have v: "v = PStr c" using assms cr by simp
  obtain v2 self2 where cr2: "croot os self' = (v2, self2)" by (cases "croot os self'")
  have v2: "v2 = PStr c"
    using croot_twice [of os self] cr cr2 v by simp
  have one: "fst (bldpkgs_dir os self) =
      Inr (if truthy noarch then path_join c ''noarch'' else path_join c (subdir os))"
    if "attrs self ''noarch'' = Some noarch" for noarch
    using that by (simp add: bldpkgs_dir_def cr v join_def)
  have both: "fst (bldpkgs_dirs os self) = Inr (path_join c (subdir os), path_join c ''noarch'')"
    by (simp add: bldpkgs_dirs_def cr v cr2 v2 join_def)
  show ?thesis using one both by blast
qed

theorem bldpkgs_layout_witness:
  "case Config sample_os [(''noarch'', PBool True)] of
     Inl e \<Rightarrow> False
   | Inr c \<Rightarrow> fst (bldpkgs_dir sample_os c) = Inr ''/home/u/conda-bld/noarch''
       \<and> fst (bldpkgs_dirs sample_os c)
           = Inr (''/home/u/conda-bld/linux-64'', ''/home/u/conda-bld/noarch'')"
proof -
  let ?kw = "[(''noarch'', PBool True)]"
  have "\<not> isl (Config sample_os ?kw)"
    by code_simp
  then obtain c where c: "set_keys sample_os ?kw new_object = Inr c"
    by (cases "Config sample_os ?kw") (auto simp: Config_def)
  have "\<not> truthy (priv_croot c)"
    using set_keys_Inr(8) [OF c] by (simp add: kwargs_get_def)
  then have cr: "fst (croot sample_os c) = PStr ''/home/u/conda-bld''"
    by (simp add: croot_fallback sample_chain)
  have na: "attrs c ''noarch'' = Some (PBool True)"
    using set_keys_Inr(10) [OF c, of "''noarch''"] by (simp add: settings_def kwargs_get_def)
  have sd: "subdir sample_os = ''linux-64''"
    by (simp add: sample_os_def)
  from bldpkgs_layout [OF cr] na show ?thesis
    by (simp add: Config_def c sd path_join_examples)
qed

text \<open>
  The layout example of the specification: build id \<open>foo-1.0-123456\<close> under
  \<open>/tmp/bld\<close>, with the default prefix length of 80.
\<close>

lemma build_prefix_example:
  "(case Config sample_os [(''build_id'', PStr ''foo-1.0-123456''), (''croot'', PStr ''/tmp/bld'')] of
      Inl e \<Rightarrow> False
    | Inr c \<Rightarrow>
        fst (build_folder sample_os c) = Inr ''/tmp/bld/foo-1.0-123456''
      \<and> fst (test_dir sample_os c) = Inr ''/tmp/bld/foo-1.0-123456/test_tmp''
      \<and> fst (build_prefix sample_os c)
          = Inr ''/tmp/bld/foo-1.0-123456/_build_env_placehold_placehold_placehold_placehold_place'')"
  by code_simp

end
